theory Spec2Isabelle
  imports Main "HOL-Library.Word"
begin

section \<open>The futex dispatch header\<close>

text \<open>
  The header defines \<^verbatim>\<open>lttng_ust_futex_noasync\<close> and \<^verbatim>\<open>lttng_ust_futex_async\<close> four
  times, once per preprocessor branch (Linux with \<^verbatim>\<open>__NR_futex\<close>, FreeBSD, Cygwin, and
  the generic \<^verbatim>\<open>#else\<close> branch). Each branch is embedded as its own pair of functions,
  the C name suffixed with the branch.

  The functions are wrappers around code that lives outside the header: the futex system
  call, FreeBSD's \<^verbatim>\<open>_umtx_op\<close>, and the two \<^verbatim>\<open>extern\<close> compat functions. These are
  parameters of the model. What a wrapper does is then: which of them it calls, in which
  order, with which arguments, and what it returns.
\<close>

subsection \<open>Arguments\<close>

text \<open>
  A pointer is the address it holds, \<open>0\<close> for \<^verbatim>\<open>NULL\<close>. The pointer
  \<^verbatim>\<open>const struct timespec *timeout\<close> is read through by the FreeBSD branch, so it is
  \<open>None\<close> for \<^verbatim>\<open>NULL\<close> and \<open>Some\<close> of the pointed-to structure otherwise. A C
  \<^verbatim>\<open>int\<close> that is only compared and handed on is an \<open>int\<close>; \<^verbatim>\<open>int32_t val\<close> is a
  32-bit word, because the FreeBSD branch casts it to \<^verbatim>\<open>uint32_t\<close>.
\<close>

type_synonym ptr = nat

record timespec =
  tv_sec :: int
  tv_nsec :: int

record futex_args =
  uaddr :: ptr
  op :: int
  val :: "32 word"
  timeout :: "timespec option"
  uaddr2 :: ptr
  val3 :: "32 word"

definition FUTEX_WAIT :: int where
  "FUTEX_WAIT = 0"

definition FUTEX_WAKE :: int where
  "FUTEX_WAKE = 1"

text \<open>
  \<^verbatim>\<open>struct _umtx_time\<close> of FreeBSD's \<^verbatim>\<open>sys/umtx.h\<close>, fields \<^verbatim>\<open>_timeout\<close>,
  \<^verbatim>\<open>_flags\<close>, \<^verbatim>\<open>_clockid\<close>, and the five arguments of
  \<^verbatim>\<open>_umtx_op(obj, op, val, uaddr, uaddr2)\<close>. In \<open>umtx_val\<close> the \<^verbatim>\<open>u_long\<close> holds the
  value of \<^verbatim>\<open>(uint32_t) val\<close>, a number below \<open>2 ^ 32\<close>. \<open>umtx_uaddr2\<close> is either
  \<^verbatim>\<open>NULL\<close> or the address of the local \<^verbatim>\<open>umtx_timeout\<close>, given by its contents.
\<close>

record umtx_time =
  ut_timeout :: timespec
  ut_flags :: nat
  ut_clockid :: nat

record umtx_args =
  umtx_obj :: ptr
  umtx_op :: int
  umtx_val :: nat
  umtx_uaddr :: nat
  umtx_uaddr2 :: "umtx_time option"

subsection \<open>What the header takes from the platform\<close>

text \<open>
  The constants of \<^verbatim>\<open>errno.h\<close>, \<^verbatim>\<open>time.h\<close> and \<^verbatim>\<open>sys/umtx.h\<close> that the header
  names. Their values differ between systems and architectures (\<^verbatim>\<open>ENOSYS\<close> is 38 on
  most Linux ports, 89 on mips, 251 on parisc, 78 on FreeBSD), so the model takes them as
  a parameter. \<open>sizeof_umtx_time\<close> is \<^verbatim>\<open>sizeof(umtx_timeout)\<close>.
\<close>

record errno_consts =
  ENOSYS :: int
  EINVAL :: int

record umtx_consts = errno_consts +
  UMTX_OP_WAIT_UINT :: int
  UMTX_OP_WAKE :: int
  UMTX_ABSTIME :: nat
  CLOCK_MONOTONIC :: nat
  sizeof_umtx_time :: nat

text \<open>
  An external function reads and writes \<^verbatim>\<open>errno\<close> and the rest of the process and
  the kernel (\<open>'w\<close>), and returns a C \<^verbatim>\<open>int\<close>.
\<close>

type_synonym ('x, 'w) extern = "'x \<Rightarrow> int \<times> 'w \<Rightarrow> int \<times> int \<times> 'w"

record 'w backends =
  syscall_futex :: "(futex_args, 'w) extern"
  umtx_op_native :: "(umtx_args, 'w) extern"
  lttng_ust_compat_futex_noasync :: "(futex_args, 'w) extern"
  lttng_ust_compat_futex_async :: "(futex_args, 'w) extern"

text \<open>
  The state of the calling thread: \<^verbatim>\<open>errno\<close>, the world, and the external calls made
  so far, oldest first. The log is kept by \<open>call_extern\<close> alone; an external function
  cannot touch it.
\<close>

datatype call =
    Sys_futex futex_args
  | Umtx_op umtx_args
  | Compat_futex_noasync futex_args
  | Compat_futex_async futex_args

record 'w proc =
  errno :: int
  world :: 'w
  trace :: "call list"

definition call_extern ::
  "('x \<Rightarrow> call) \<Rightarrow> ('x, 'w) extern \<Rightarrow> 'x \<Rightarrow> 'w proc \<Rightarrow> int \<times> 'w proc" where
  "call_extern tag f x s =
     (case f x (errno s, world s) of
        (r, e, w) \<Rightarrow> (r, s\<lparr>errno := e, world := w, trace := trace s @ [tag x]\<rparr>))"

subsection \<open>Linux\<close>

text \<open>\<^verbatim>\<open>syscall(__NR_futex, uaddr, op, val, timeout, uaddr2, val3)\<close>.\<close>

definition lttng_ust_futex :: "'w backends \<Rightarrow> futex_args \<Rightarrow> 'w proc \<Rightarrow> int \<times> 'w proc" where
  "lttng_ust_futex B a s = call_extern Sys_futex (syscall_futex B) a s"

definition lttng_ust_futex_noasync_linux ::
  "errno_consts \<Rightarrow> 'w backends \<Rightarrow> futex_args \<Rightarrow> 'w proc \<Rightarrow> int \<times> 'w proc" where
  "lttng_ust_futex_noasync_linux K B a s =
     (case lttng_ust_futex B a s of
        (ret, s1) \<Rightarrow>
          if ret < 0 \<and> errno s1 = ENOSYS K
          then call_extern Compat_futex_async (lttng_ust_compat_futex_async B) a s1
          else (ret, s1))"

definition lttng_ust_futex_async_linux ::
  "errno_consts \<Rightarrow> 'w backends \<Rightarrow> futex_args \<Rightarrow> 'w proc \<Rightarrow> int \<times> 'w proc" where
  "lttng_ust_futex_async_linux K B a s =
     (case lttng_ust_futex B a s of
        (ret, s1) \<Rightarrow>
          if ret < 0 \<and> errno s1 = ENOSYS K
          then call_extern Compat_futex_async (lttng_ust_compat_futex_async B) a s1
          else (ret, s1))"

subsection \<open>FreeBSD\<close>

text \<open>
  The initialiser of \<^verbatim>\<open>umtx_timeout\<close> names \<^verbatim>\<open>_flags\<close> and \<^verbatim>\<open>_clockid\<close>; the
  \<^verbatim>\<open>_timeout\<close> it leaves out is zero. The \<^verbatim>\<open>switch\<close> either returns early (\<open>None\<close>)
  or leaves \<^verbatim>\<open>umtx_op\<close>, \<^verbatim>\<open>umtx_uaddr\<close> and \<^verbatim>\<open>umtx_uaddr2\<close> for the one call of
  \<^verbatim>\<open>_umtx_op\<close> that ends the function. The parameters \<^verbatim>\<open>uaddr2\<close> and \<^verbatim>\<open>val3\<close> do not
  occur in the body.
\<close>

definition lttng_ust_futex_async_freebsd ::
  "umtx_consts \<Rightarrow> 'w backends \<Rightarrow> futex_args \<Rightarrow> 'w proc \<Rightarrow> int \<times> 'w proc" where
  "lttng_ust_futex_async_freebsd K B a s =
     (let umtx_timeout = \<lparr>ut_timeout = \<lparr>tv_sec = 0, tv_nsec = 0\<rparr>,
                          ut_flags = UMTX_ABSTIME K, ut_clockid = CLOCK_MONOTONIC K\<rparr>;
          switch =
            (if op a = FUTEX_WAIT then
               (case timeout a of
                  Some t \<Rightarrow>
                    Some (UMTX_OP_WAIT_UINT K, sizeof_umtx_time K,
                          Some (umtx_timeout\<lparr>ut_timeout := t\<rparr>))
                | None \<Rightarrow> Some (UMTX_OP_WAIT_UINT K, 0, None))
             else if op a = FUTEX_WAKE then Some (UMTX_OP_WAKE K, 0, None)
             else None)
      in case switch of
           None \<Rightarrow> (- 1, s\<lparr>errno := EINVAL K\<rparr>)
         | Some (umtx_op', umtx_uaddr', umtx_uaddr2') \<Rightarrow>
             call_extern Umtx_op (umtx_op_native B)
               \<lparr>umtx_obj = uaddr a, umtx_op = umtx_op', umtx_val = unat (val a),
                umtx_uaddr = umtx_uaddr', umtx_uaddr2 = umtx_uaddr2'\<rparr> s)"

definition lttng_ust_futex_noasync_freebsd ::
  "umtx_consts \<Rightarrow> 'w backends \<Rightarrow> futex_args \<Rightarrow> 'w proc \<Rightarrow> int \<times> 'w proc" where
  "lttng_ust_futex_noasync_freebsd K B a s = lttng_ust_futex_async_freebsd K B a s"

subsection \<open>Cygwin\<close>

definition lttng_ust_futex_noasync_cygwin ::
  "'w backends \<Rightarrow> futex_args \<Rightarrow> 'w proc \<Rightarrow> int \<times> 'w proc" where
  "lttng_ust_futex_noasync_cygwin B a s =
     call_extern Compat_futex_async (lttng_ust_compat_futex_async B) a s"

definition lttng_ust_futex_async_cygwin ::
  "'w backends \<Rightarrow> futex_args \<Rightarrow> 'w proc \<Rightarrow> int \<times> 'w proc" where
  "lttng_ust_futex_async_cygwin B a s =
     call_extern Compat_futex_async (lttng_ust_compat_futex_async B) a s"

subsection \<open>Any other system\<close>

definition lttng_ust_futex_noasync_generic ::
  "'w backends \<Rightarrow> futex_args \<Rightarrow> 'w proc \<Rightarrow> int \<times> 'w proc" where
  "lttng_ust_futex_noasync_generic B a s =
     call_extern Compat_futex_noasync (lttng_ust_compat_futex_noasync B) a s"

definition lttng_ust_futex_async_generic ::
  "'w backends \<Rightarrow> futex_args \<Rightarrow> 'w proc \<Rightarrow> int \<times> 'w proc" where
  "lttng_ust_futex_async_generic B a s =
     call_extern Compat_futex_async (lttng_ust_compat_futex_async B) a s"

section \<open>The error-pointer helpers of kernelcompat.h\<close>

text \<open>
  \<^verbatim>\<open>long\<close> and \<^verbatim>\<open>unsigned long\<close> are words of one width \<open>'l\<close>, \<^verbatim>\<open>void *\<close> is a word
  of width \<open>'p\<close>. The casts between them are the compiler's: an integer converted to a
  pointer, or a pointer to an integer, loses its high bits when the target is narrower
  and is extended by its sign when the target is wider, which is \<open>scast\<close>. Between types
  of one width the bits stay as they are.

  \<^verbatim>\<open>unlikely\<close> comes from \<^verbatim>\<open>compiler.h\<close>; it is a hint to the compiler and yields the
  truth value of its argument, which \<^verbatim>\<open>IS_ERR\<close> returns as a \<^verbatim>\<open>long\<close>.
\<close>

definition MAX_ERRNO :: int where
  "MAX_ERRNO = 4095"

definition IS_ERR_VALUE :: "'l::len word \<Rightarrow> bool" where
  "IS_ERR_VALUE x = (x \<ge> word_of_int (- MAX_ERRNO))"

definition ERR_PTR :: "'l::len word \<Rightarrow> 'p::len word" where
  "ERR_PTR error = scast error"

definition PTR_ERR :: "'p::len word \<Rightarrow> 'l::len word" where
  "PTR_ERR ptr = scast ptr"

definition IS_ERR :: "'p::len word \<Rightarrow> 'l::len word" where
  "IS_ERR ptr = (if IS_ERR_VALUE (scast ptr :: 'l word) then 1 else 0)"

section \<open>Test doubles\<close>

text \<open>
  Concrete constants and external functions, for running the wrappers. The world is a
  counter: a kernel entry adds 1, the async compat function 10, the noasync one 100.
\<close>

definition linux_x86 :: errno_consts where
  "linux_x86 = \<lparr>ENOSYS = 38, EINVAL = 22\<rparr>"

definition freebsd_amd64 :: umtx_consts where
  "freebsd_amd64 =
     \<lparr>ENOSYS = 78, EINVAL = 22, UMTX_OP_WAIT_UINT = 11, UMTX_OP_WAKE = 3,
      UMTX_ABSTIME = 1, CLOCK_MONOTONIC = 4, sizeof_umtx_time = 24\<rparr>"

text \<open>A kernel that fails every call with the given \<^verbatim>\<open>errno\<close>.\<close>

definition kernel_fails :: "int \<Rightarrow> ('x, nat) extern" where
  "kernel_fails e x ew = (- 1, e, snd ew + 1)"

text \<open>A kernel that succeeds, returning \<open>n\<close> and leaving \<^verbatim>\<open>errno\<close> alone.\<close>

definition kernel_returns :: "int \<Rightarrow> ('x, nat) extern" where
  "kernel_returns n x ew = (n, fst ew, snd ew + 1)"

text \<open>
  Compat functions that accept the two operations and refuse any other with error 22,
  as the kernel-free implementation does.
\<close>

definition compat_double :: "nat \<Rightarrow> (futex_args, nat) extern" where
  "compat_double k a ew =
     (if op a = FUTEX_WAIT \<or> op a = FUTEX_WAKE then (0, fst ew, snd ew + k)
      else (- 1, 22, snd ew + k))"

definition backends_with :: "(futex_args, nat) extern \<Rightarrow> nat backends" where
  "backends_with k =
     \<lparr>syscall_futex = k, umtx_op_native = kernel_returns 0,
      lttng_ust_compat_futex_noasync = compat_double 100,
      lttng_ust_compat_futex_async = compat_double 10\<rparr>"

definition start :: "nat proc" where
  "start = \<lparr>errno = 0, world = 0, trace = []\<rparr>"

definition wait_1s :: futex_args where
  "wait_1s = \<lparr>uaddr = 4096, op = 0, val = 5,
              timeout = Some \<lparr>tv_sec = 1, tv_nsec = 0\<rparr>, uaddr2 = 8192, val3 = 7\<rparr>"

definition wake_all :: futex_args where
  "wake_all = \<lparr>uaddr = 4096, op = 1, val = - 1, timeout = None, uaddr2 = 8192, val3 = 7\<rparr>"

definition bad_op :: futex_args where
  "bad_op = \<lparr>uaddr = 4096, op = 9, val = 5, timeout = None, uaddr2 = 8192, val3 = 7\<rparr>"

section \<open>Properties of the dispatch\<close>

subsection \<open>One external call\<close>

lemma call_extern_eq:
  "f x (errno s, world s) = (r, e, w) \<Longrightarrow>
   call_extern tag f x s = (r, s\<lparr>errno := e, world := w, trace := trace s @ [tag x]\<rparr>)"
  by (simp add: call_extern_def)

lemma call_extern_case:
  "call_extern tag f x s =
     (case f x (errno s, world s) of
        (r, e, w) \<Rightarrow> (r, s\<lparr>errno := e, world := w, trace := trace s @ [tag x]\<rparr>))"
  by (simp add: call_extern_def)

lemma trace_call_extern: "trace (snd (call_extern tag f x s)) = trace s @ [tag x]"
  by (simp add: call_extern_def split: prod.splits)

lemma fst_call_extern: "fst (call_extern tag f x s) = fst (f x (errno s, world s))"
  by (simp add: call_extern_def split: prod.splits)

lemma lttng_ust_futex_eq:
  "syscall_futex B a (errno s, world s) = (r, e, w) \<Longrightarrow>
   lttng_ust_futex B a s = (r, s\<lparr>errno := e, world := w, trace := trace s @ [Sys_futex a]\<rparr>)"
  unfolding lttng_ust_futex_def by (rule call_extern_eq)

subsection \<open>The calls each wrapper makes\<close>

lemma trace_async_linux:
  "trace (snd (lttng_ust_futex_async_linux K B a s)) = trace s @ [Sys_futex a] \<or>
   trace (snd (lttng_ust_futex_async_linux K B a s)) =
     trace s @ [Sys_futex a, Compat_futex_async a]"
proof -
  obtain ret s1 where first: "lttng_ust_futex B a s = (ret, s1)"
    by (cases "lttng_ust_futex B a s")
  then have "trace s1 = trace s @ [Sys_futex a]"
    using trace_call_extern [of Sys_futex "syscall_futex B" a s]
    by (simp add: lttng_ust_futex_def)
  then show ?thesis
    using first trace_call_extern [of Compat_futex_async "lttng_ust_compat_futex_async B" a s1]
    by (simp add: lttng_ust_futex_async_linux_def)
qed

lemma trace_noasync_linux:
  "trace (snd (lttng_ust_futex_noasync_linux K B a s)) = trace s @ [Sys_futex a] \<or>
   trace (snd (lttng_ust_futex_noasync_linux K B a s)) =
     trace s @ [Sys_futex a, Compat_futex_async a]"
proof -
  obtain ret s1 where first: "lttng_ust_futex B a s = (ret, s1)"
    by (cases "lttng_ust_futex B a s")
  then have "trace s1 = trace s @ [Sys_futex a]"
    using trace_call_extern [of Sys_futex "syscall_futex B" a s]
    by (simp add: lttng_ust_futex_def)
  then show ?thesis
    using first trace_call_extern [of Compat_futex_async "lttng_ust_compat_futex_async B" a s1]
    by (simp add: lttng_ust_futex_noasync_linux_def)
qed

lemma async_freebsd_other_op:
  "op a \<noteq> FUTEX_WAIT \<Longrightarrow> op a \<noteq> FUTEX_WAKE \<Longrightarrow>
   lttng_ust_futex_async_freebsd K B a s = (- 1, s\<lparr>errno := EINVAL K\<rparr>)"
  by (simp add: lttng_ust_futex_async_freebsd_def)

lemma async_freebsd_secondary:
  "lttng_ust_futex_async_freebsd K B (a\<lparr>uaddr2 := u, val3 := v\<rparr>) s =
   lttng_ust_futex_async_freebsd K B a s"
  by (simp add: lttng_ust_futex_async_freebsd_def Let_def split: option.splits)

lemma async_freebsd_backends:
  "lttng_ust_futex_async_freebsd K
     (B\<lparr>syscall_futex := f, lttng_ust_compat_futex_noasync := g,
        lttng_ust_compat_futex_async := h\<rparr>) a s =
   lttng_ust_futex_async_freebsd K B a s"
  by (simp add: lttng_ust_futex_async_freebsd_def Let_def split: option.splits)

lemma trace_async_freebsd:
  "trace (snd (lttng_ust_futex_async_freebsd K B a s)) = trace s \<or>
   (\<exists>u. trace (snd (lttng_ust_futex_async_freebsd K B a s)) = trace s @ [Umtx_op u])"
  by (simp add: lttng_ust_futex_async_freebsd_def Let_def trace_call_extern
      split: option.splits)

text \<open>The whole result of the Linux and FreeBSD wrappers, in terms of the external functions.\<close>

lemma async_linux_result:
  "lttng_ust_futex_async_linux K B a s =
     (case syscall_futex B a (errno s, world s) of
        (r, e, w) \<Rightarrow>
          if r < 0 \<and> e = ENOSYS K
          then (case lttng_ust_compat_futex_async B a (e, w) of
                  (r', e', w') \<Rightarrow>
                    (r', s\<lparr>errno := e', world := w',
                           trace := trace s @ [Sys_futex a, Compat_futex_async a]\<rparr>))
          else (r, s\<lparr>errno := e, world := w, trace := trace s @ [Sys_futex a]\<rparr>))"
  by (simp add: lttng_ust_futex_async_linux_def lttng_ust_futex_def call_extern_def
      split: prod.splits)

lemma noasync_linux_result:
  "lttng_ust_futex_noasync_linux K B a s =
     (case syscall_futex B a (errno s, world s) of
        (r, e, w) \<Rightarrow>
          if r < 0 \<and> e = ENOSYS K
          then (case lttng_ust_compat_futex_async B a (e, w) of
                  (r', e', w') \<Rightarrow>
                    (r', s\<lparr>errno := e', world := w',
                           trace := trace s @ [Sys_futex a, Compat_futex_async a]\<rparr>))
          else (r, s\<lparr>errno := e, world := w, trace := trace s @ [Sys_futex a]\<rparr>))"
  by (simp add: lttng_ust_futex_noasync_linux_def lttng_ust_futex_def call_extern_def
      split: prod.splits)

lemma async_freebsd_result:
  "lttng_ust_futex_async_freebsd K B a s =
     (if op a = FUTEX_WAIT then
        (let x = \<lparr>umtx_obj = uaddr a, umtx_op = UMTX_OP_WAIT_UINT K, umtx_val = unat (val a),
                   umtx_uaddr = (case timeout a of None \<Rightarrow> 0 | Some t \<Rightarrow> sizeof_umtx_time K),
                   umtx_uaddr2 =
                     (case timeout a of
                        None \<Rightarrow> None
                      | Some t \<Rightarrow> Some \<lparr>ut_timeout = t, ut_flags = UMTX_ABSTIME K,
                                         ut_clockid = CLOCK_MONOTONIC K\<rparr>)\<rparr>
         in case umtx_op_native B x (errno s, world s) of
              (r, e, w) \<Rightarrow> (r, s\<lparr>errno := e, world := w, trace := trace s @ [Umtx_op x]\<rparr>))
      else if op a = FUTEX_WAKE then
        (let x = \<lparr>umtx_obj = uaddr a, umtx_op = UMTX_OP_WAKE K, umtx_val = unat (val a),
                   umtx_uaddr = 0, umtx_uaddr2 = None\<rparr>
         in case umtx_op_native B x (errno s, world s) of
              (r, e, w) \<Rightarrow> (r, s\<lparr>errno := e, world := w, trace := trace s @ [Umtx_op x]\<rparr>))
      else (- 1, s\<lparr>errno := EINVAL K\<rparr>))"
  by (simp add: lttng_ust_futex_async_freebsd_def Let_def call_extern_def
      split: option.splits)

lemma unat_minus_one_32: "unat (- 1 :: 32 word) = 4294967295"
  by (simp add: unsigned_minus_1_eq_mask mask_eq_exp_minus_1)

subsection \<open>Linux: the redirect on ENOSYS\<close>

text \<open>
  C1. On Linux, when the futex system call fails (negative result) with \<^verbatim>\<open>errno\<close> equal
  to \<^verbatim>\<open>ENOSYS\<close>, both \<^verbatim>\<open>lttng_ust_futex_noasync\<close> and \<^verbatim>\<open>lttng_ust_futex_async\<close> make
  exactly one further call, to \<^verbatim>\<open>lttng_ust_compat_futex_async\<close> with the caller's
  arguments, and return its result, its \<^verbatim>\<open>errno\<close> and its world. The noasync compat
  function is not called. What the caller sees is the outcome of the fallback in place of
  the outcome of the system call: the value \<open>r\<close> that the system call returned is gone,
  and the caller sees a failure with \<^verbatim>\<open>ENOSYS\<close> exactly when the fallback reports one.
\<close>

theorem linux_enosys_redirects_to_compat_async:
  assumes native: "syscall_futex B a (errno s, world s) = (r, e, w)"
    and fails: "r < 0"
    and unsupported: "e = ENOSYS K"
    and fallback: "lttng_ust_compat_futex_async B a (e, w) = (r', e', w')"
  shows "lttng_ust_futex_noasync_linux K B a s =
           (r', s\<lparr>errno := e', world := w',
                  trace := trace s @ [Sys_futex a, Compat_futex_async a]\<rparr>)
       \<and> lttng_ust_futex_async_linux K B a s =
           (r', s\<lparr>errno := e', world := w',
                  trace := trace s @ [Sys_futex a, Compat_futex_async a]\<rparr>)
       \<and> ((fst (lttng_ust_futex_noasync_linux K B a s) < 0
             \<and> errno (snd (lttng_ust_futex_noasync_linux K B a s)) = ENOSYS K)
            = (r' < 0 \<and> e' = ENOSYS K))
       \<and> ((fst (lttng_ust_futex_async_linux K B a s) < 0
             \<and> errno (snd (lttng_ust_futex_async_linux K B a s)) = ENOSYS K)
            = (r' < 0 \<and> e' = ENOSYS K))"
proof -
  let ?s1 = "s\<lparr>errno := e, world := w, trace := trace s @ [Sys_futex a]\<rparr>"
  have first: "lttng_ust_futex B a s = (r, ?s1)"
    using native by (rule lttng_ust_futex_eq)
  have "lttng_ust_compat_futex_async B a (errno ?s1, world ?s1) = (r', e', w')"
    using fallback by simp
  then have second:
    "call_extern Compat_futex_async (lttng_ust_compat_futex_async B) a ?s1 =
       (r', s\<lparr>errno := e', world := w',
              trace := trace s @ [Sys_futex a, Compat_futex_async a]\<rparr>)"
    by (simp add: call_extern_def)
  have noasync: "lttng_ust_futex_noasync_linux K B a s =
       (r', s\<lparr>errno := e', world := w',
              trace := trace s @ [Sys_futex a, Compat_futex_async a]\<rparr>)"
    using first second fails unsupported by (simp add: lttng_ust_futex_noasync_linux_def)
  have async: "lttng_ust_futex_async_linux K B a s =
       (r', s\<lparr>errno := e', world := w',
              trace := trace s @ [Sys_futex a, Compat_futex_async a]\<rparr>)"
    using first second fails unsupported by (simp add: lttng_ust_futex_async_linux_def)
  show ?thesis
    by (simp add: noasync async)
qed

theorem linux_enosys_redirects_to_compat_async_witness:
  "syscall_futex (backends_with (kernel_fails 38)) wait_1s (errno start, world start)
     = (- 1, 38, 1)
   \<and> (- 1 :: int) < 0
   \<and> (38 :: int) = ENOSYS linux_x86
   \<and> lttng_ust_compat_futex_async (backends_with (kernel_fails 38)) wait_1s (38, 1)
     = (0, 38, 11)
   \<and> lttng_ust_futex_noasync_linux linux_x86 (backends_with (kernel_fails 38)) wait_1s start =
       (0, \<lparr>errno = 38, world = 11,
            trace = [Sys_futex wait_1s, Compat_futex_async wait_1s]\<rparr>)
   \<and> lttng_ust_futex_async_linux linux_x86 (backends_with (kernel_fails 38)) wait_1s start =
       (0, \<lparr>errno = 38, world = 11,
            trace = [Sys_futex wait_1s, Compat_futex_async wait_1s]\<rparr>)"
proof -
  have h1: "syscall_futex (backends_with (kernel_fails 38)) wait_1s (errno start, world start)
      = (- 1, 38, 1)"
    by (simp add: backends_with_def kernel_fails_def start_def)
  have h2: "(- 1 :: int) < 0"
    by simp
  have h3: "(38 :: int) = ENOSYS linux_x86"
    by (simp add: linux_x86_def)
  have h4: "lttng_ust_compat_futex_async (backends_with (kernel_fails 38)) wait_1s (38, 1)
      = (0, 38, 11)"
    by (simp add: backends_with_def compat_double_def wait_1s_def FUTEX_WAIT_def)
  show ?thesis
    using linux_enosys_redirects_to_compat_async [OF h1 h2 h3 h4] h1 h3 h4
    by (simp add: start_def)
qed

subsection \<open>Linux: every other result\<close>

text \<open>
  C5. On Linux, when the result of the futex system call is not a failure with
  \<^verbatim>\<open>ENOSYS\<close> (it is non-negative, or it is negative and \<^verbatim>\<open>errno\<close> is something else),
  both entry points return that result, with the \<^verbatim>\<open>errno\<close> and the world the system
  call left, and the system call is the only external call made: no fallback and no
  second attempt. A wait interrupted by a signal (\<open>- 1\<close> with \<^verbatim>\<open>EINTR\<close>) is one such
  result.
\<close>

theorem linux_other_results_verbatim:
  assumes native: "syscall_futex B a (errno s, world s) = (r, e, w)"
    and other: "\<not> (r < 0 \<and> e = ENOSYS K)"
  shows "lttng_ust_futex_noasync_linux K B a s =
           (r, s\<lparr>errno := e, world := w, trace := trace s @ [Sys_futex a]\<rparr>)
       \<and> lttng_ust_futex_async_linux K B a s =
           (r, s\<lparr>errno := e, world := w, trace := trace s @ [Sys_futex a]\<rparr>)"
proof -
  have "lttng_ust_futex B a s =
      (r, s\<lparr>errno := e, world := w, trace := trace s @ [Sys_futex a]\<rparr>)"
    using native by (rule lttng_ust_futex_eq)
  then show ?thesis
    using other
    by (auto simp add: lttng_ust_futex_noasync_linux_def lttng_ust_futex_async_linux_def)
qed

text \<open>The witness is an interrupted wait: \<^verbatim>\<open>EINTR\<close> is 4 on Linux.\<close>

theorem linux_other_results_verbatim_witness:
  "syscall_futex (backends_with (kernel_fails 4)) wait_1s (errno start, world start)
     = (- 1, 4, 1)
   \<and> \<not> ((- 1 :: int) < 0 \<and> (4 :: int) = ENOSYS linux_x86)
   \<and> lttng_ust_futex_noasync_linux linux_x86 (backends_with (kernel_fails 4)) wait_1s start =
       (- 1, \<lparr>errno = 4, world = 1, trace = [Sys_futex wait_1s]\<rparr>)
   \<and> lttng_ust_futex_async_linux linux_x86 (backends_with (kernel_fails 4)) wait_1s start =
       (- 1, \<lparr>errno = 4, world = 1, trace = [Sys_futex wait_1s]\<rparr>)"
proof -
  have h1: "syscall_futex (backends_with (kernel_fails 4)) wait_1s (errno start, world start)
      = (- 1, 4, 1)"
    by (simp add: backends_with_def kernel_fails_def start_def)
  have h2: "\<not> ((- 1 :: int) < 0 \<and> (4 :: int) = ENOSYS linux_x86)"
    by (simp add: linux_x86_def)
  show ?thesis
    using linux_other_results_verbatim [OF h1 h2] h1 h2
    by (simp add: start_def)
qed

subsection \<open>Linux: the two entry points are one function\<close>

text \<open>
  C9. On Linux, \<^verbatim>\<open>lttng_ust_futex_noasync\<close> and \<^verbatim>\<open>lttng_ust_futex_async\<close> return the
  same value and leave the same state, for all arguments, all states, and every
  behaviour of the system call and of the compat functions.
\<close>

theorem linux_noasync_equals_async:
  "lttng_ust_futex_noasync_linux K B a s = lttng_ust_futex_async_linux K B a s"
  by (simp add: lttng_ust_futex_noasync_linux_def lttng_ust_futex_async_linux_def)

subsection \<open>Operation codes other than WAIT and WAKE\<close>

text \<open>
  C2, as the code has it. For an operation code that is neither \<^verbatim>\<open>FUTEX_WAIT\<close> nor
  \<^verbatim>\<open>FUTEX_WAKE\<close>, the two FreeBSD entry points return \<open>- 1\<close> with \<^verbatim>\<open>errno\<close> set to
  \<^verbatim>\<open>EINVAL\<close>, and call nothing: the world and the log of calls are as before. The
  entry points of the other three branches do not look at the operation code. On Linux
  the system call is made with the caller's arguments; if it fails with \<^verbatim>\<open>ENOSYS\<close> the
  async compat function is called with the same arguments and its value, \<^verbatim>\<open>errno\<close> and
  world are returned, otherwise those of the system call are. On Cygwin both entry points
  call the async compat function, in the generic branch each calls the compat function of
  its name, with the caller's arguments, and return its value, \<^verbatim>\<open>errno\<close> and world.
\<close>

theorem other_op_einval_on_freebsd_forwarded_elsewhere:
  assumes "op a \<noteq> FUTEX_WAIT" and "op a \<noteq> FUTEX_WAKE"
  shows "lttng_ust_futex_async_freebsd KU B a s = (- 1, s\<lparr>errno := EINVAL KU\<rparr>)
       \<and> lttng_ust_futex_noasync_freebsd KU B a s = (- 1, s\<lparr>errno := EINVAL KU\<rparr>)
       \<and> lttng_ust_futex_noasync_linux K B a s =
           (case syscall_futex B a (errno s, world s) of
              (r, e, w) \<Rightarrow>
                if r < 0 \<and> e = ENOSYS K
                then (case lttng_ust_compat_futex_async B a (e, w) of
                        (r', e', w') \<Rightarrow>
                          (r', s\<lparr>errno := e', world := w',
                                 trace := trace s @ [Sys_futex a, Compat_futex_async a]\<rparr>))
                else (r, s\<lparr>errno := e, world := w, trace := trace s @ [Sys_futex a]\<rparr>))
       \<and> lttng_ust_futex_async_linux K B a s =
           (case syscall_futex B a (errno s, world s) of
              (r, e, w) \<Rightarrow>
                if r < 0 \<and> e = ENOSYS K
                then (case lttng_ust_compat_futex_async B a (e, w) of
                        (r', e', w') \<Rightarrow>
                          (r', s\<lparr>errno := e', world := w',
                                 trace := trace s @ [Sys_futex a, Compat_futex_async a]\<rparr>))
                else (r, s\<lparr>errno := e, world := w, trace := trace s @ [Sys_futex a]\<rparr>))
       \<and> lttng_ust_futex_noasync_cygwin B a s =
           (case lttng_ust_compat_futex_async B a (errno s, world s) of
              (r, e, w) \<Rightarrow>
                (r, s\<lparr>errno := e, world := w, trace := trace s @ [Compat_futex_async a]\<rparr>))
       \<and> lttng_ust_futex_async_cygwin B a s =
           (case lttng_ust_compat_futex_async B a (errno s, world s) of
              (r, e, w) \<Rightarrow>
                (r, s\<lparr>errno := e, world := w, trace := trace s @ [Compat_futex_async a]\<rparr>))
       \<and> lttng_ust_futex_noasync_generic B a s =
           (case lttng_ust_compat_futex_noasync B a (errno s, world s) of
              (r, e, w) \<Rightarrow>
                (r, s\<lparr>errno := e, world := w, trace := trace s @ [Compat_futex_noasync a]\<rparr>))
       \<and> lttng_ust_futex_async_generic B a s =
           (case lttng_ust_compat_futex_async B a (errno s, world s) of
              (r, e, w) \<Rightarrow>
                (r, s\<lparr>errno := e, world := w, trace := trace s @ [Compat_futex_async a]\<rparr>))"
proof -
  have freebsd: "lttng_ust_futex_async_freebsd KU B a s = (- 1, s\<lparr>errno := EINVAL KU\<rparr>)"
    using assms by (rule async_freebsd_other_op)
  have freebsd': "lttng_ust_futex_noasync_freebsd KU B a s = (- 1, s\<lparr>errno := EINVAL KU\<rparr>)"
    using freebsd by (simp add: lttng_ust_futex_noasync_freebsd_def)
  note linux = noasync_linux_result [of K B a s] async_linux_result [of K B a s]
  have cygwin:
    "lttng_ust_futex_noasync_cygwin B a s =
       (case lttng_ust_compat_futex_async B a (errno s, world s) of
          (r, e, w) \<Rightarrow>
            (r, s\<lparr>errno := e, world := w, trace := trace s @ [Compat_futex_async a]\<rparr>))"
    "lttng_ust_futex_async_cygwin B a s =
       (case lttng_ust_compat_futex_async B a (errno s, world s) of
          (r, e, w) \<Rightarrow>
            (r, s\<lparr>errno := e, world := w, trace := trace s @ [Compat_futex_async a]\<rparr>))"
    by (simp_all add: lttng_ust_futex_noasync_cygwin_def lttng_ust_futex_async_cygwin_def
        call_extern_case)
  have generic:
    "lttng_ust_futex_noasync_generic B a s =
       (case lttng_ust_compat_futex_noasync B a (errno s, world s) of
          (r, e, w) \<Rightarrow>
            (r, s\<lparr>errno := e, world := w, trace := trace s @ [Compat_futex_noasync a]\<rparr>))"
    "lttng_ust_futex_async_generic B a s =
       (case lttng_ust_compat_futex_async B a (errno s, world s) of
          (r, e, w) \<Rightarrow>
            (r, s\<lparr>errno := e, world := w, trace := trace s @ [Compat_futex_async a]\<rparr>))"
    by (simp_all add: lttng_ust_futex_noasync_generic_def lttng_ust_futex_async_generic_def
        call_extern_case)
  show ?thesis
    by (intro conjI) (rule freebsd freebsd' linux cygwin generic)+
qed

text \<open>
  The witness runs all eight entry points on operation code 9, with a kernel that
  answers \<^verbatim>\<open>ENOSYS\<close> (38 on Linux) to the futex call.
\<close>

theorem other_op_einval_on_freebsd_forwarded_elsewhere_witness:
  "op bad_op \<noteq> FUTEX_WAIT \<and> op bad_op \<noteq> FUTEX_WAKE
   \<and> lttng_ust_futex_async_freebsd freebsd_amd64 (backends_with (kernel_fails 38)) bad_op start
       = (- 1, \<lparr>errno = 22, world = 0, trace = []\<rparr>)
   \<and> lttng_ust_futex_noasync_freebsd freebsd_amd64 (backends_with (kernel_fails 38)) bad_op
         start
       = (- 1, \<lparr>errno = 22, world = 0, trace = []\<rparr>)
   \<and> lttng_ust_futex_noasync_linux linux_x86 (backends_with (kernel_fails 38)) bad_op start
       = (- 1, \<lparr>errno = 22, world = 11,
                trace = [Sys_futex bad_op, Compat_futex_async bad_op]\<rparr>)
   \<and> lttng_ust_futex_async_linux linux_x86 (backends_with (kernel_fails 38)) bad_op start
       = (- 1, \<lparr>errno = 22, world = 11,
                trace = [Sys_futex bad_op, Compat_futex_async bad_op]\<rparr>)
   \<and> lttng_ust_futex_noasync_cygwin (backends_with (kernel_fails 38)) bad_op start
       = (- 1, \<lparr>errno = 22, world = 10, trace = [Compat_futex_async bad_op]\<rparr>)
   \<and> lttng_ust_futex_async_cygwin (backends_with (kernel_fails 38)) bad_op start
       = (- 1, \<lparr>errno = 22, world = 10, trace = [Compat_futex_async bad_op]\<rparr>)
   \<and> lttng_ust_futex_noasync_generic (backends_with (kernel_fails 38)) bad_op start
       = (- 1, \<lparr>errno = 22, world = 100, trace = [Compat_futex_noasync bad_op]\<rparr>)
   \<and> lttng_ust_futex_async_generic (backends_with (kernel_fails 38)) bad_op start
       = (- 1, \<lparr>errno = 22, world = 10, trace = [Compat_futex_async bad_op]\<rparr>)"
proof -
  have h1: "op bad_op \<noteq> FUTEX_WAIT"
    by (simp add: bad_op_def FUTEX_WAIT_def)
  have h2: "op bad_op \<noteq> FUTEX_WAKE"
    by (simp add: bad_op_def FUTEX_WAKE_def)
  have k: "EINVAL freebsd_amd64 = 22" "ENOSYS linux_x86 = 38"
    by (simp_all add: freebsd_amd64_def linux_x86_def)
  have b:
    "\<And>ew. syscall_futex (backends_with (kernel_fails 38)) bad_op ew = (- 1, 38, snd ew + 1)"
    "\<And>ew. lttng_ust_compat_futex_async (backends_with (kernel_fails 38)) bad_op ew
       = (- 1, 22, snd ew + 10)"
    "\<And>ew. lttng_ust_compat_futex_noasync (backends_with (kernel_fails 38)) bad_op ew
       = (- 1, 22, snd ew + 100)"
    using h1 h2 by (simp_all add: backends_with_def kernel_fails_def compat_double_def)
  show ?thesis
    using other_op_einval_on_freebsd_forwarded_elsewhere
      [OF h1 h2, of freebsd_amd64 "backends_with (kernel_fails 38)" start linux_x86]
      h1 h2
    by (simp add: k b start_def)
qed

text \<open>
  The claim as it was stated fails on Linux, on Cygwin and in the generic branch. The
  operation code 9 is neither of the two. On Linux the system call is made; where the
  kernel accepts the operation and returns 0, 0 is what the caller gets, and where the
  kernel answers \<^verbatim>\<open>ENOSYS\<close> the fallback is called as well. On Cygwin and in the
  generic branch the caller does get \<open>- 1\<close> and error 22, but from the compat
  function, which has been called.
\<close>

theorem other_op_reaches_the_backends:
  "op bad_op \<noteq> FUTEX_WAIT \<and> op bad_op \<noteq> FUTEX_WAKE
   \<and> lttng_ust_futex_async_linux linux_x86 (backends_with (kernel_returns 0)) bad_op start
       = (0, \<lparr>errno = 0, world = 1, trace = [Sys_futex bad_op]\<rparr>)
   \<and> lttng_ust_futex_noasync_linux linux_x86 (backends_with (kernel_returns 0)) bad_op start
       = (0, \<lparr>errno = 0, world = 1, trace = [Sys_futex bad_op]\<rparr>)
   \<and> lttng_ust_futex_async_linux linux_x86 (backends_with (kernel_fails 38)) bad_op start
       = (- 1, \<lparr>errno = 22, world = 11,
                trace = [Sys_futex bad_op, Compat_futex_async bad_op]\<rparr>)
   \<and> lttng_ust_futex_async_cygwin (backends_with (kernel_returns 0)) bad_op start
       = (- 1, \<lparr>errno = 22, world = 10, trace = [Compat_futex_async bad_op]\<rparr>)
   \<and> lttng_ust_futex_noasync_generic (backends_with (kernel_returns 0)) bad_op start
       = (- 1, \<lparr>errno = 22, world = 100, trace = [Compat_futex_noasync bad_op]\<rparr>)"
  by (simp add: lttng_ust_futex_async_linux_def lttng_ust_futex_noasync_linux_def
      lttng_ust_futex_async_cygwin_def lttng_ust_futex_noasync_generic_def
      lttng_ust_futex_def call_extern_def linux_x86_def backends_with_def
      kernel_returns_def kernel_fails_def compat_double_def bad_op_def start_def
      FUTEX_WAIT_def FUTEX_WAKE_def)

subsection \<open>FreeBSD: the timeout of a wait\<close>

text \<open>
  What \<^verbatim>\<open>_umtx_op\<close> is given for a wait with a timeout: the caller's \<^verbatim>\<open>timespec\<close>,
  copied as it is, in a \<^verbatim>\<open>_umtx_time\<close> whose flags are \<^verbatim>\<open>UMTX_ABSTIME\<close> and whose
  clock is \<^verbatim>\<open>CLOCK_MONOTONIC\<close>.
\<close>

lemma async_freebsd_wait_timeout:
  "op a = FUTEX_WAIT \<Longrightarrow> timeout a = Some t \<Longrightarrow>
   lttng_ust_futex_async_freebsd K B a s =
     call_extern Umtx_op (umtx_op_native B)
       \<lparr>umtx_obj = uaddr a, umtx_op = UMTX_OP_WAIT_UINT K, umtx_val = unat (val a),
        umtx_uaddr = sizeof_umtx_time K,
        umtx_uaddr2 = Some \<lparr>ut_timeout = t, ut_flags = UMTX_ABSTIME K,
                             ut_clockid = CLOCK_MONOTONIC K\<rparr>\<rparr> s"
  by (simp add: lttng_ust_futex_async_freebsd_def)

text \<open>
  C3. The claim is that the timeout of a wait is a duration, counted from the call, in
  every branch, and that the FreeBSD translation keeps that meaning. The FreeBSD branch
  does not: a wait of one second reaches \<^verbatim>\<open>_umtx_op\<close> as the \<^verbatim>\<open>timespec\<close> \<open>{1, 0}\<close>
  flagged \<^verbatim>\<open>UMTX_ABSTIME\<close> on \<^verbatim>\<open>CLOCK_MONOTONIC\<close>, which asks for a wait until the
  monotonic clock reads one second. The theorem runs both FreeBSD entry points on that
  call.
\<close>

theorem freebsd_wait_timeout_is_flagged_absolute:
  "timeout wait_1s = Some \<lparr>tv_sec = 1, tv_nsec = 0\<rparr>
   \<and> lttng_ust_futex_async_freebsd freebsd_amd64 (backends_with (kernel_returns 0)) wait_1s
         start
       = (0, \<lparr>errno = 0, world = 1,
              trace = [Umtx_op
                \<lparr>umtx_obj = 4096, umtx_op = UMTX_OP_WAIT_UINT freebsd_amd64, umtx_val = 5,
                 umtx_uaddr = 24,
                 umtx_uaddr2 = Some \<lparr>ut_timeout = \<lparr>tv_sec = 1, tv_nsec = 0\<rparr>,
                                      ut_flags = UMTX_ABSTIME freebsd_amd64,
                                      ut_clockid = CLOCK_MONOTONIC freebsd_amd64\<rparr>\<rparr>]\<rparr>)
   \<and> lttng_ust_futex_noasync_freebsd freebsd_amd64 (backends_with (kernel_returns 0)) wait_1s
         start
       = lttng_ust_futex_async_freebsd freebsd_amd64 (backends_with (kernel_returns 0)) wait_1s
           start
   \<and> UMTX_ABSTIME freebsd_amd64 = 1"
  by (simp add: lttng_ust_futex_noasync_freebsd_def lttng_ust_futex_async_freebsd_def
      call_extern_def freebsd_amd64_def backends_with_def kernel_returns_def wait_1s_def
      start_def FUTEX_WAIT_def)

subsection \<open>The secondary address and value\<close>

text \<open>
  C4, as the code has it. On Linux, on Cygwin and in the generic branch every external
  call an entry point makes is given the caller's six arguments as they are, \<^verbatim>\<open>uaddr2\<close>
  and \<^verbatim>\<open>val3\<close> among them. The FreeBSD entry points do not use \<^verbatim>\<open>uaddr2\<close> and
  \<^verbatim>\<open>val3\<close>: \<^verbatim>\<open>_umtx_op\<close> has no place for them, and changing them changes neither the
  call made nor the result.
\<close>

theorem secondary_arguments_forwarded_except_on_freebsd:
  "(trace (snd (lttng_ust_futex_noasync_linux K B a s)) = trace s @ [Sys_futex a]
      \<or> trace (snd (lttng_ust_futex_noasync_linux K B a s)) =
           trace s @ [Sys_futex a, Compat_futex_async a])
   \<and> (trace (snd (lttng_ust_futex_async_linux K B a s)) = trace s @ [Sys_futex a]
      \<or> trace (snd (lttng_ust_futex_async_linux K B a s)) =
           trace s @ [Sys_futex a, Compat_futex_async a])
   \<and> trace (snd (lttng_ust_futex_noasync_cygwin B a s)) = trace s @ [Compat_futex_async a]
   \<and> trace (snd (lttng_ust_futex_async_cygwin B a s)) = trace s @ [Compat_futex_async a]
   \<and> trace (snd (lttng_ust_futex_noasync_generic B a s)) = trace s @ [Compat_futex_noasync a]
   \<and> trace (snd (lttng_ust_futex_async_generic B a s)) = trace s @ [Compat_futex_async a]
   \<and> lttng_ust_futex_async_freebsd KU B (a\<lparr>uaddr2 := u, val3 := v\<rparr>) s =
       lttng_ust_futex_async_freebsd KU B a s
   \<and> lttng_ust_futex_noasync_freebsd KU B (a\<lparr>uaddr2 := u, val3 := v\<rparr>) s =
       lttng_ust_futex_noasync_freebsd KU B a s"
  using trace_noasync_linux [of K B a s] trace_async_linux [of K B a s]
  by (simp add: async_freebsd_secondary
      lttng_ust_futex_noasync_cygwin_def lttng_ust_futex_async_cygwin_def
      lttng_ust_futex_noasync_generic_def lttng_ust_futex_async_generic_def
      lttng_ust_futex_noasync_freebsd_def trace_call_extern)

text \<open>
  The claim as it was stated fails on FreeBSD. A wake with \<^verbatim>\<open>uaddr2\<close> 8192 and
  \<^verbatim>\<open>val3\<close> 7 makes one call of \<^verbatim>\<open>_umtx_op\<close>, in which neither occurs, and the same
  call is made when both are 0.
\<close>

theorem freebsd_drops_secondary_arguments:
  "uaddr2 wake_all = 8192 \<and> val3 wake_all = 7
   \<and> lttng_ust_futex_async_freebsd freebsd_amd64 (backends_with (kernel_returns 0)) wake_all
         start
       = (0, \<lparr>errno = 0, world = 1,
              trace = [Umtx_op \<lparr>umtx_obj = 4096, umtx_op = 3, umtx_val = 4294967295,
                                umtx_uaddr = 0, umtx_uaddr2 = None\<rparr>]\<rparr>)
   \<and> lttng_ust_futex_async_freebsd freebsd_amd64 (backends_with (kernel_returns 0))
         (wake_all\<lparr>uaddr2 := 0, val3 := 0\<rparr>) start
       = (0, \<lparr>errno = 0, world = 1,
              trace = [Umtx_op \<lparr>umtx_obj = 4096, umtx_op = 3, umtx_val = 4294967295,
                                umtx_uaddr = 0, umtx_uaddr2 = None\<rparr>]\<rparr>)"
  by (simp add: lttng_ust_futex_async_freebsd_def call_extern_def freebsd_amd64_def
      backends_with_def kernel_returns_def wake_all_def start_def FUTEX_WAIT_def
      FUTEX_WAKE_def unat_minus_one_32)

subsection \<open>FreeBSD: one function, one backend\<close>

text \<open>
  C6. On FreeBSD \<^verbatim>\<open>lttng_ust_futex_noasync\<close> returns what \<^verbatim>\<open>lttng_ust_futex_async\<close>
  returns, for all arguments, and both translate the call to \<^verbatim>\<open>_umtx_op\<close>. A wait
  becomes one call of \<^verbatim>\<open>_umtx_op\<close> on the caller's address with \<^verbatim>\<open>UMTX_OP_WAIT_UINT\<close>
  and the value as an unsigned number, with the size and the address of the timeout
  structure when there is a timeout and two null pointers when there is none; a wake
  becomes one call with \<^verbatim>\<open>UMTX_OP_WAKE\<close> and two null pointers. The entry point returns
  the value, the \<^verbatim>\<open>errno\<close> and the world of that call. Any other operation code is
  refused with \<^verbatim>\<open>EINVAL\<close> and nothing is called. Neither entry point uses a fallback:
  replacing the futex system call and both compat functions by anything else changes
  nothing, and the log gains nothing or one call of \<^verbatim>\<open>_umtx_op\<close>.
\<close>

theorem freebsd_noasync_equals_async_no_fallback:
  "lttng_ust_futex_noasync_freebsd K B a s = lttng_ust_futex_async_freebsd K B a s
   \<and> lttng_ust_futex_async_freebsd K B a s =
       (if op a = FUTEX_WAIT then
          (let x = \<lparr>umtx_obj = uaddr a, umtx_op = UMTX_OP_WAIT_UINT K,
                     umtx_val = unat (val a),
                     umtx_uaddr =
                       (case timeout a of None \<Rightarrow> 0 | Some t \<Rightarrow> sizeof_umtx_time K),
                     umtx_uaddr2 =
                       (case timeout a of
                          None \<Rightarrow> None
                        | Some t \<Rightarrow> Some \<lparr>ut_timeout = t, ut_flags = UMTX_ABSTIME K,
                                           ut_clockid = CLOCK_MONOTONIC K\<rparr>)\<rparr>
           in case umtx_op_native B x (errno s, world s) of
                (r, e, w) \<Rightarrow>
                  (r, s\<lparr>errno := e, world := w, trace := trace s @ [Umtx_op x]\<rparr>))
        else if op a = FUTEX_WAKE then
          (let x = \<lparr>umtx_obj = uaddr a, umtx_op = UMTX_OP_WAKE K, umtx_val = unat (val a),
                     umtx_uaddr = 0, umtx_uaddr2 = None\<rparr>
           in case umtx_op_native B x (errno s, world s) of
                (r, e, w) \<Rightarrow>
                  (r, s\<lparr>errno := e, world := w, trace := trace s @ [Umtx_op x]\<rparr>))
        else (- 1, s\<lparr>errno := EINVAL K\<rparr>))
   \<and> lttng_ust_futex_async_freebsd K
        (B\<lparr>syscall_futex := f, lttng_ust_compat_futex_noasync := g,
           lttng_ust_compat_futex_async := h\<rparr>) a s =
       lttng_ust_futex_async_freebsd K B a s
   \<and> lttng_ust_futex_noasync_freebsd K
        (B\<lparr>syscall_futex := f, lttng_ust_compat_futex_noasync := g,
           lttng_ust_compat_futex_async := h\<rparr>) a s =
       lttng_ust_futex_noasync_freebsd K B a s
   \<and> (trace (snd (lttng_ust_futex_async_freebsd K B a s)) = trace s
      \<or> (\<exists>u. trace (snd (lttng_ust_futex_async_freebsd K B a s)) = trace s @ [Umtx_op u]))"
proof -
  have same: "lttng_ust_futex_noasync_freebsd K B a s = lttng_ust_futex_async_freebsd K B a s"
    by (simp add: lttng_ust_futex_noasync_freebsd_def)
  have others:
    "lttng_ust_futex_async_freebsd K
       (B\<lparr>syscall_futex := f, lttng_ust_compat_futex_noasync := g,
          lttng_ust_compat_futex_async := h\<rparr>) a s =
     lttng_ust_futex_async_freebsd K B a s"
    "lttng_ust_futex_noasync_freebsd K
       (B\<lparr>syscall_futex := f, lttng_ust_compat_futex_noasync := g,
          lttng_ust_compat_futex_async := h\<rparr>) a s =
     lttng_ust_futex_noasync_freebsd K B a s"
    by (simp_all add: async_freebsd_backends lttng_ust_futex_noasync_freebsd_def)
  show ?thesis
    by (intro conjI)
      (rule same async_freebsd_result [of K B a s] others trace_async_freebsd [of K B a s])+
qed

text \<open>
  Run on a wake of all waiters and on a wait with a timeout, with a kernel that returns
  3 from \<^verbatim>\<open>_umtx_op\<close>: the one call made is the translated one, and 3 is returned.
\<close>

lemma freebsd_translation_examples:
  "lttng_ust_futex_noasync_freebsd freebsd_amd64
     ((backends_with (kernel_fails 38))\<lparr>umtx_op_native := kernel_returns 3\<rparr>) wake_all start
     = (3, \<lparr>errno = 0, world = 1,
            trace = [Umtx_op \<lparr>umtx_obj = 4096, umtx_op = 3, umtx_val = 4294967295,
                              umtx_uaddr = 0, umtx_uaddr2 = None\<rparr>]\<rparr>)"
  "lttng_ust_futex_noasync_freebsd freebsd_amd64
     ((backends_with (kernel_fails 38))\<lparr>umtx_op_native := kernel_returns 3\<rparr>) wait_1s start
     = (3, \<lparr>errno = 0, world = 1,
            trace = [Umtx_op \<lparr>umtx_obj = 4096, umtx_op = 11, umtx_val = 5, umtx_uaddr = 24,
                              umtx_uaddr2 = Some \<lparr>ut_timeout = \<lparr>tv_sec = 1, tv_nsec = 0\<rparr>,
                                                   ut_flags = 1, ut_clockid = 4\<rparr>\<rparr>]\<rparr>)"
  by (simp_all add: lttng_ust_futex_noasync_freebsd_def lttng_ust_futex_async_freebsd_def
      call_extern_def freebsd_amd64_def backends_with_def kernel_returns_def wake_all_def
      wait_1s_def start_def FUTEX_WAIT_def FUTEX_WAKE_def unat_minus_one_32)

subsection \<open>Cygwin\<close>

text \<open>
  C7. On Cygwin both entry points make one external call,
  \<^verbatim>\<open>lttng_ust_compat_futex_async\<close> with the caller's arguments in the caller's state, and
  return its value, its \<^verbatim>\<open>errno\<close> and its world. The noasync compat function is not
  used: replacing it, and the two native calls, by anything else changes nothing.
\<close>

theorem cygwin_both_delegate_to_compat_async:
  "lttng_ust_futex_noasync_cygwin B a s =
     (case lttng_ust_compat_futex_async B a (errno s, world s) of
        (r, e, w) \<Rightarrow>
          (r, s\<lparr>errno := e, world := w, trace := trace s @ [Compat_futex_async a]\<rparr>))
   \<and> lttng_ust_futex_async_cygwin B a s =
     (case lttng_ust_compat_futex_async B a (errno s, world s) of
        (r, e, w) \<Rightarrow>
          (r, s\<lparr>errno := e, world := w, trace := trace s @ [Compat_futex_async a]\<rparr>))
   \<and> lttng_ust_futex_noasync_cygwin
        (B\<lparr>syscall_futex := f, umtx_op_native := u, lttng_ust_compat_futex_noasync := g\<rparr>)
        a s =
       lttng_ust_futex_noasync_cygwin B a s
   \<and> lttng_ust_futex_async_cygwin
        (B\<lparr>syscall_futex := f, umtx_op_native := u, lttng_ust_compat_futex_noasync := g\<rparr>)
        a s =
       lttng_ust_futex_async_cygwin B a s"
  by (simp add: lttng_ust_futex_noasync_cygwin_def lttng_ust_futex_async_cygwin_def
      call_extern_case)

subsection \<open>The generic branch\<close>

text \<open>
  C8. Where there is no native primitive, \<^verbatim>\<open>lttng_ust_futex_noasync\<close> makes one external
  call, \<^verbatim>\<open>lttng_ust_compat_futex_noasync\<close>, and \<^verbatim>\<open>lttng_ust_futex_async\<close> makes one,
  \<^verbatim>\<open>lttng_ust_compat_futex_async\<close>, each with the caller's arguments in the caller's
  state, and each returns the value, the \<^verbatim>\<open>errno\<close> and the world of its call.
\<close>

theorem generic_delegates_to_same_named_compat:
  "lttng_ust_futex_noasync_generic B a s =
     (case lttng_ust_compat_futex_noasync B a (errno s, world s) of
        (r, e, w) \<Rightarrow>
          (r, s\<lparr>errno := e, world := w, trace := trace s @ [Compat_futex_noasync a]\<rparr>))
   \<and> lttng_ust_futex_async_generic B a s =
     (case lttng_ust_compat_futex_async B a (errno s, world s) of
        (r, e, w) \<Rightarrow>
          (r, s\<lparr>errno := e, world := w, trace := trace s @ [Compat_futex_async a]\<rparr>))"
  by (simp add: lttng_ust_futex_noasync_generic_def lttng_ust_futex_async_generic_def
      call_extern_case)

section \<open>Properties of the error-pointer helpers\<close>

text \<open>
  C10. Where \<^verbatim>\<open>long\<close> and \<^verbatim>\<open>void *\<close> have one width, \<^verbatim>\<open>PTR_ERR(ERR_PTR(e))\<close> is \<open>e\<close>
  for every \<^verbatim>\<open>long\<close> \<open>e\<close>, \<^verbatim>\<open>ERR_PTR(PTR_ERR(p))\<close> is \<open>p\<close> for every pointer \<open>p\<close>, and
  \<^verbatim>\<open>IS_ERR(ERR_PTR(e))\<close> is non-zero exactly when \<open>e\<close>, read as an \<^verbatim>\<open>unsigned long\<close>,
  is at least \<^verbatim>\<open>(unsigned long)-MAX_ERRNO\<close>, with \<^verbatim>\<open>MAX_ERRNO\<close> 4095.
\<close>

theorem err_ptr_roundtrip:
  "PTR_ERR (ERR_PTR e :: 'a word) = (e :: 'a::len word)
   \<and> ERR_PTR (PTR_ERR p :: 'a word) = (p :: 'a word)
   \<and> (IS_ERR (ERR_PTR e :: 'a word) \<noteq> (0 :: 'a word)) = (word_of_int (- MAX_ERRNO) \<le> e)
   \<and> (word_of_int (- MAX_ERRNO) :: 'a word) = - 4095
   \<and> MAX_ERRNO = 4095"
  by (simp add: PTR_ERR_def ERR_PTR_def IS_ERR_def IS_ERR_VALUE_def MAX_ERRNO_def)

text \<open>
  With 64 bits, in numbers: the pointers that \<^verbatim>\<open>IS_ERR\<close> accepts are the 4095 highest
  addresses, and the \<^verbatim>\<open>long\<close> values it accepts are \<open>- 4095\<close> to \<open>- 1\<close>.
\<close>

lemma uint_of_sint_64:
  "uint (w :: 64 word) = (if sint w < 0 then sint w + 2 ^ 64 else sint w)"
proof -
  have m: "uint w = sint w mod 2 ^ 64"
    by (simp add: uint_sint take_bit_eq_mod)
  have lo: "- (2 ^ 63) \<le> sint w" and hi: "sint w < 2 ^ 63"
    using sint_ge [of w] sint_lt [of w] by simp_all
  show ?thesis
  proof (cases "sint w < 0")
    case True
    have "(sint w + 2 ^ 64) mod 2 ^ 64 = sint w + 2 ^ 64"
      using lo True by (intro mod_pos_pos_trivial) simp_all
    then show ?thesis using True m by simp
  next
    case False
    have "sint w mod 2 ^ 64 = sint w"
      using hi False by (intro mod_pos_pos_trivial) simp_all
    then show ?thesis using False m by simp
  qed
qed

lemma IS_ERR_unsigned_64:
  "(IS_ERR (p :: 64 word) \<noteq> (0 :: 64 word)) = (2 ^ 64 - 4095 \<le> uint p)"
  by (simp add: IS_ERR_def IS_ERR_VALUE_def MAX_ERRNO_def word_le_def)

lemma IS_ERR_signed_64:
  "(IS_ERR (ERR_PTR (e :: 64 word) :: 64 word) \<noteq> (0 :: 64 word))
     = (- 4095 \<le> sint e \<and> sint e < 0)"
proof -
  have "(IS_ERR (ERR_PTR e :: 64 word) \<noteq> (0 :: 64 word)) = (2 ^ 64 - 4095 \<le> uint e)"
    by (simp add: IS_ERR_unsigned_64 ERR_PTR_def)
  also have "\<dots> = (- 4095 \<le> sint e \<and> sint e < 0)"
    using sint_lt [of e] by (auto simp add: uint_of_sint_64)
  finally show ?thesis .
qed

text \<open>The two sides of the boundary, and an ordinary address.\<close>

lemma IS_ERR_examples:
  "IS_ERR (ERR_PTR (- 4095 :: 64 word) :: 64 word) = (1 :: 64 word)"
  "IS_ERR (ERR_PTR (- 4096 :: 64 word) :: 64 word) = (0 :: 64 word)"
  "IS_ERR (4096 :: 64 word) = (0 :: 64 word)"
  "PTR_ERR (ERR_PTR (- 12 :: 64 word) :: 64 word) = (- 12 :: 64 word)"
  by (simp_all add: IS_ERR_def IS_ERR_VALUE_def ERR_PTR_def PTR_ERR_def MAX_ERRNO_def)

end
